theory Spec2Isabelle
  imports Main
begin

section \<open>The action registry of treeactions.js\<close>

text \<open>
  The module defines a constructor \<open>ActionHandler\<close>, two tables of built-in actions
  (\<open>_actions\<close>, \<open>custom_ignore\<close>), a function \<open>fun\<close> that builds the registry stored on
  \<open>ActionHandler.prototype._actions\<close>, and the methods \<open>extend_env\<close>, \<open>register\<close>,
  \<open>normalise\<close>, \<open>get_name\<close>, \<open>get\<close>, \<open>call\<close> and \<open>exists\<close>.

  JavaScript exceptions are values of type \<open>error\<close>; code with effects is a function from
  a state to a result and the state after it, the state being returned also when the code
  throws.
\<close>

subsection \<open>Exceptions and effects\<close>

datatype error =
    TypeError          \<comment> \<open>raised by the runtime: a property read on \<open>undefined\<close> or \<open>null\<close>,
                           a call of something that is not a function\<close>
  | Thrown string      \<comment> \<open>\<open>throw(s)\<close> of a string \<open>s\<close>\<close>
  | Exception nat      \<comment> \<open>any other exception value, raised by code outside the module\<close>

type_synonym ('s, 'a) js = "'s \<Rightarrow> (error + 'a) \<times> 's"

definition ret :: "'a \<Rightarrow> ('s, 'a) js" where
  "ret a s = (Inr a, s)"

definition throw :: "error \<Rightarrow> ('s, 'a) js" where
  "throw e s = (Inl e, s)"

definition bind :: "('s, 'a) js \<Rightarrow> ('a \<Rightarrow> ('s, 'b) js) \<Rightarrow> ('s, 'b) js" where
  "bind m f s = (case m s of (Inl e, s') \<Rightarrow> (Inl e, s') | (Inr a, s') \<Rightarrow> f a s')"

definition seq :: "('s, 'a) js \<Rightarrow> ('s, 'b) js \<Rightarrow> ('s, 'b) js" where
  "seq m n = bind m (\<lambda>_. n)"

definition if_then :: "bool \<Rightarrow> ('s, unit) js \<Rightarrow> ('s, unit) js" where
  "if_then c m = (if c then m else ret ())"

text \<open>The value of \<open>o.p\<close> where \<open>o\<close> may be \<open>undefined\<close>: using it as an object throws.\<close>

definition the_obj :: "'a option \<Rightarrow> ('s, 'a) js" where
  "the_obj x = (case x of None \<Rightarrow> throw TypeError | Some a \<Rightarrow> ret a)"

subsection \<open>Values\<close>

text \<open>
  Primitive values; numbers are the integers (row and cell indices, counts).
\<close>

datatype prim = Undefined | Null | Bool bool | Num int | Str string

text \<open>
  The event that triggered an action is a DOM event, known by its identity. Calling its
  \<open>preventDefault\<close> is recorded in the world: \<open>prevented\<close> lists the events on which it has
  been called, in the order of the calls. Everything else outside the module (the page, the
  notebook, the editor) is the component \<open>host\<close>.
\<close>

type_synonym event = nat

record 'w world =
  prevented :: "event list"
  host :: 'w

definition preventDefault :: "event \<Rightarrow> ('w world, unit) js" where
  "preventDefault e w = (Inr (), w\<lparr>prevented := prevented w @ [e]\<rparr>)"

text \<open>\<open>if(event){ event.preventDefault(); }\<close>, the event being absent (\<open>undefined\<close>) or an event.\<close>

definition if_event_preventDefault :: "event option \<Rightarrow> ('w world, unit) js" where
  "if_event_preventDefault event = (case event of None \<Rightarrow> ret () | Some e \<Rightarrow> preventDefault e)"

subsection \<open>The environment: handles to the collaborators\<close>

text \<open>
  The handlers reach the page through \<open>env.notebooklist\<close> and \<open>env.notebook\<close>. Their
  methods are not part of the module: each is a parameter, a computation on the world that
  may throw. The fields are the methods the handlers call, with the argument and result
  types the handlers use them at.
\<close>

record 'w notebooklist =
  nbl_get_length_siblings :: "string \<Rightarrow> ('w world, int) js"
  nbl_open :: "('w world, unit) js"
  nbl_get_selected_index :: "('w world, int) js"
  nbl_select_row :: "int \<Rightarrow> ('w world, unit) js"

record cursor =
  cur_line :: int
  ch :: int

record 'w code_mirror =
  cm_getCursor :: "('w world, cursor) js"
  cm_lastLine :: "('w world, int) js"
  cm_setCursor :: "int \<Rightarrow> int \<Rightarrow> ('w world, unit) js"

record 'w cell =
  at_top :: "('w world, bool) js"
  at_bottom :: "('w world, bool) js"
  code_mirror :: "'w code_mirror"

record 'w notebook =
  nb_get_selected_index :: "('w world, int) js"
  nb_get_cell :: "int \<Rightarrow> ('w world, 'w cell option) js"     \<comment> \<open>\<open>null\<close> when there is no such cell\<close>
  nb_get_selected_cell :: "('w world, 'w cell option) js"
  nb_command_mode :: "('w world, unit) js"
  nb_edit_mode :: "('w world, unit) js"
  nb_select_prev :: "('w world, unit) js"
  nb_select_next :: "('w world, unit) js"
  nb_ncells :: "('w world, int) js"
  nb_scroll_manager_scroll :: "int \<Rightarrow> ('w world, prim) js"
  nb_scroll_cell_percent :: "int \<Rightarrow> int \<Rightarrow> int \<Rightarrow> ('w world, prim) js"
  nb_save_checkpoint :: "('w world, unit) js"

record 'w env =
  notebooklist :: "'w notebooklist option"     \<comment> \<open>\<open>None\<close>: the key is not in the environment\<close>
  notebook :: "'w notebook option"
  other_keys :: "string \<rightharpoonup> prim"             \<comment> \<open>the keys no built-in handler reads\<close>

text \<open>The object \<open>{}\<close> as an environment.\<close>

definition empty_env :: "'w env" where
  "empty_env = \<lparr>notebooklist = None, notebook = None, other_keys = Map.empty\<rparr>"

text \<open>\<open>env.notebooklist.m(...)\<close> and \<open>env.notebook.m(...)\<close>: the key is read at every call.\<close>

definition env_notebooklist :: "'w env \<Rightarrow> ('w notebooklist \<Rightarrow> ('w world, 'a) js) \<Rightarrow> ('w world, 'a) js" where
  "env_notebooklist env m = bind (the_obj (notebooklist env)) m"

definition env_notebook :: "'w env \<Rightarrow> ('w notebook \<Rightarrow> ('w world, 'a) js) \<Rightarrow> ('w world, 'a) js" where
  "env_notebook env m = bind (the_obj (notebook env)) m"

subsection \<open>The handlers of the table \<open>_actions\<close>\<close>

text \<open>Each takes the environment only and returns nothing (\<open>undefined\<close>).\<close>

definition enter_row :: "'w env \<Rightarrow> ('w world, prim) js" where
  "enter_row env =
     bind (env_notebooklist env (\<lambda>l. nbl_get_length_siblings l ''.focus'')) (\<lambda>len_sib.
     seq (if_then (len_sib > 0) (env_notebooklist env nbl_open))
     (ret Undefined))"

definition select_previous_row :: "'w env \<Rightarrow> ('w world, prim) js" where
  "select_previous_row env =
     bind (env_notebooklist env (\<lambda>l. nbl_get_length_siblings l ''.focus'')) (\<lambda>focused.
     seq (if_then (focused > 0)
            (bind (env_notebooklist env nbl_get_selected_index) (\<lambda>index.
             if_then (index > 0) (env_notebooklist env (\<lambda>l. nbl_select_row l (index - 1))))))
     (seq (if_then (focused = 0) (env_notebooklist env (\<lambda>l. nbl_select_row l 0)))
     (ret Undefined)))"

definition select_next_row :: "'w env \<Rightarrow> ('w world, prim) js" where
  "select_next_row env =
     bind (env_notebooklist env (\<lambda>l. nbl_get_length_siblings l ''.focus'')) (\<lambda>focused.
     bind (env_notebooklist env (\<lambda>l. nbl_get_length_siblings l ''.list_item'')) (\<lambda>len_sib.
     seq (if_then (focused > 0)
            (bind (env_notebooklist env nbl_get_selected_index) (\<lambda>index.
             if_then (index < len_sib) (env_notebooklist env (\<lambda>l. nbl_select_row l (index + 1))))))
     (seq (if_then (focused = 0) (env_notebooklist env (\<lambda>l. nbl_select_row l 0)))
     (ret Undefined))))"

subsection \<open>The handlers of the table \<open>custom_ignore\<close>\<close>

text \<open>Each takes the environment and the event, and what it returns is its own business.\<close>

definition ignore :: "'w env \<Rightarrow> event option \<Rightarrow> ('w world, prim) js" where
  "ignore env event = ret (Bool True)"

text \<open>\<open>env.notebook.get_selected_cell().code_mirror\<close>\<close>

definition selected_code_mirror :: "'w env \<Rightarrow> ('w world, 'w code_mirror) js" where
  "selected_code_mirror env =
     bind (bind (env_notebook env nb_get_selected_cell) the_obj) (\<lambda>c. ret (code_mirror c))"

definition move_cursor_up_or_previous_cell :: "'w env \<Rightarrow> event option \<Rightarrow> ('w world, prim) js" where
  "move_cursor_up_or_previous_cell env event =
     bind (env_notebook env nb_get_selected_index) (\<lambda>index.
     bind (env_notebook env (\<lambda>n. nb_get_cell n index)) (\<lambda>cell.
     bind (selected_code_mirror env) (\<lambda>cm.
     bind (cm_getCursor cm) (\<lambda>cur.
     bind (case cell of
             None \<Rightarrow> ret False
           | Some c \<Rightarrow> bind (at_top c) (\<lambda>t. ret (t \<and> index \<noteq> 0 \<and> ch cur = 0))) (\<lambda>cond.
     seq (if_then cond
            (seq (if_event_preventDefault event)
            (seq (env_notebook env nb_command_mode)
            (seq (env_notebook env nb_select_prev)
            (seq (env_notebook env nb_edit_mode)
            (bind (selected_code_mirror env) (\<lambda>cm.
             bind (cm_lastLine cm) (\<lambda>l. cm_setCursor cm l 0))))))))
     (ret (Bool False)))))))"

definition move_cursor_down_or_next_cell :: "'w env \<Rightarrow> event option \<Rightarrow> ('w world, prim) js" where
  "move_cursor_down_or_next_cell env event =
     bind (env_notebook env nb_get_selected_index) (\<lambda>index.
     bind (env_notebook env (\<lambda>n. nb_get_cell n index)) (\<lambda>cell.
     bind (bind (the_obj cell) at_bottom) (\<lambda>b.
     bind (if b then bind (env_notebook env nb_ncells) (\<lambda>n. ret (index \<noteq> n - 1))
           else ret False) (\<lambda>cond.
     seq (if_then cond
            (seq (if_event_preventDefault event)
            (seq (env_notebook env nb_command_mode)
            (seq (env_notebook env nb_select_next)
            (seq (env_notebook env nb_edit_mode)
            (bind (selected_code_mirror env) (\<lambda>cm. cm_setCursor cm 0 0)))))))
     (ret (Bool False))))))"

definition scroll_down :: "'w env \<Rightarrow> event option \<Rightarrow> ('w world, prim) js" where
  "scroll_down env event =
     seq (if_event_preventDefault event)
     (env_notebook env (\<lambda>n. nb_scroll_manager_scroll n 1))"

definition scroll_up :: "'w env \<Rightarrow> event option \<Rightarrow> ('w world, prim) js" where
  "scroll_up env event =
     seq (if_event_preventDefault event)
     (env_notebook env (\<lambda>n. nb_scroll_manager_scroll n (- 1)))"

definition scroll_cell_center :: "'w env \<Rightarrow> event option \<Rightarrow> ('w world, prim) js" where
  "scroll_cell_center env event =
     seq (if_event_preventDefault event)
     (bind (env_notebook env nb_get_selected_index) (\<lambda>cell.
      env_notebook env (\<lambda>n. nb_scroll_cell_percent n cell 50 0)))"

definition scroll_cell_top :: "'w env \<Rightarrow> event option \<Rightarrow> ('w world, prim) js" where
  "scroll_cell_top env event =
     seq (if_event_preventDefault event)
     (bind (env_notebook env nb_get_selected_index) (\<lambda>cell.
      env_notebook env (\<lambda>n. nb_scroll_cell_percent n cell 0 0)))"

definition save_notebook :: "'w env \<Rightarrow> event option \<Rightarrow> ('w world, prim) js" where
  "save_notebook env event =
     seq (env_notebook env nb_save_checkpoint)
     (seq (if_event_preventDefault event)
     (ret (Bool False)))"

subsection \<open>The two tables\<close>

text \<open>
  A handler written in one of the tables is named by a constructor of \<open>raw\<close>; none of them
  is reachable from outside the module except through the wrappers built by \<open>fun\<close>.
\<close>

datatype raw =
    EnterRow | SelectPreviousRow | SelectNextRow
  | Ignore | MoveCursorUpOrPreviousCell | MoveCursorDownOrNextCell
  | ScrollDown | ScrollUp | ScrollCellCenter | ScrollCellTop | SaveNotebook

text \<open>
  \<open>handler(env, event)\<close> for a handler of the tables; those of \<open>_actions\<close> have one
  parameter and never see the second argument.
\<close>

fun raw_handler :: "raw \<Rightarrow> 'w env \<Rightarrow> event option \<Rightarrow> ('w world, prim) js" where
  "raw_handler EnterRow env event = enter_row env"
| "raw_handler SelectPreviousRow env event = select_previous_row env"
| "raw_handler SelectNextRow env event = select_next_row env"
| "raw_handler Ignore env event = ignore env event"
| "raw_handler MoveCursorUpOrPreviousCell env event = move_cursor_up_or_previous_cell env event"
| "raw_handler MoveCursorDownOrNextCell env event = move_cursor_down_or_next_cell env event"
| "raw_handler ScrollDown env event = scroll_down env event"
| "raw_handler ScrollUp env event = scroll_up env event"
| "raw_handler ScrollCellCenter env event = scroll_cell_center env event"
| "raw_handler ScrollCellTop env event = scroll_cell_top env event"
| "raw_handler SaveNotebook env event = save_notebook env event"

text \<open>An entry of a table: \<open>None\<close> is a key the object literal does not have.\<close>

record source_action =
  src_help :: "string option"
  src_help_index :: "string option"
  src_icon :: "string option"
  src_handler :: raw

text \<open>The table \<open>_actions\<close>, in the order of the literal.\<close>

definition actions :: "(string \<times> source_action) list" where
  "actions =
    [(''enter-row'',
        \<lparr>src_help = Some ''opens active file or directory'', src_help_index = Some ''aa'',
         src_icon = None, src_handler = EnterRow\<rparr>),
     (''select-previous-row'',
        \<lparr>src_help = Some ''moves focus to previous file or directory'', src_help_index = Some ''ab'',
         src_icon = None, src_handler = SelectPreviousRow\<rparr>),
     (''select-next-row'',
        \<lparr>src_help = Some ''moves focus to next file or directory'', src_help_index = Some ''ac'',
         src_icon = None, src_handler = SelectNextRow\<rparr>)]"

definition custom_ignore :: "(string \<times> source_action) list" where
  "custom_ignore =
    [(''ignore'',
        \<lparr>src_help = None, src_help_index = None, src_icon = None, src_handler = Ignore\<rparr>),
     (''move-cursor-up-or-previous-cell'',
        \<lparr>src_help = None, src_help_index = None, src_icon = None,
         src_handler = MoveCursorUpOrPreviousCell\<rparr>),
     (''move-cursor-down-or-next-cell'',
        \<lparr>src_help = None, src_help_index = None, src_icon = None,
         src_handler = MoveCursorDownOrNextCell\<rparr>),
     (''scroll-down'',
        \<lparr>src_help = None, src_help_index = None, src_icon = None, src_handler = ScrollDown\<rparr>),
     (''scroll-up'',
        \<lparr>src_help = None, src_help_index = None, src_icon = None, src_handler = ScrollUp\<rparr>),
     (''scroll-cell-center'',
        \<lparr>src_help = Some ''Scroll the current cell to the center'', src_help_index = None,
         src_icon = None, src_handler = ScrollCellCenter\<rparr>),
     (''scroll-cell-top'',
        \<lparr>src_help = Some ''Scroll the current cell to the top'', src_help_index = None,
         src_icon = None, src_handler = ScrollCellTop\<rparr>),
     (''save-notebook'',
        \<lparr>src_help = Some ''Save and Checkpoint'', src_help_index = Some ''fb'',
         src_icon = Some ''fa-save'', src_handler = SaveNotebook\<rparr>)]"

subsection \<open>Functions and objects\<close>

text \<open>
  A function value that the registry can hold is one of the two closures \<open>fun\<close> creates,
  each over the table's handler it wraps, or a function given by a caller: its identity,
  its text (what \<open>String\<close> returns for it) and what calling it with an environment and an
  event does.
\<close>

datatype 'w fn =
    External nat string "'w env \<Rightarrow> event option \<Rightarrow> ('w world, prim) js"
  | SimpleWrapper raw
  | AdvancedWrapper raw

datatype 'w jsval =
    Prim prim
  | Fn "'w fn"
  | Obj "(string \<times> 'w jsval) list"     \<comment> \<open>a plain object: its own properties, in insertion order\<close>

text \<open>\<open>String(f)\<close>: the source text of the function.\<close>

definition simple_wrapper_text :: string where
  "simple_wrapper_text =
     ''function(env, event){\<newline>'' @
     ''                        handler(env);\<newline>'' @
     ''                        if(event){\<newline>'' @
     ''                            event.preventDefault();\<newline>'' @
     ''                        }\<newline>'' @
     ''                        return false;\<newline>'' @
     ''                    }''"

definition advanced_wrapper_text :: string where
  "advanced_wrapper_text =
     ''function(env, event){\<newline>'' @
     ''                        return handler(env, event);\<newline>'' @
     ''                    }''"

fun fn_text :: "'w fn \<Rightarrow> string" where
  "fn_text (External r t b) = t"
| "fn_text (SimpleWrapper h) = simple_wrapper_text"
| "fn_text (AdvancedWrapper h) = advanced_wrapper_text"

text \<open>Calling a function value with \<open>(env, event)\<close>.\<close>

fun apply_fn :: "'w fn \<Rightarrow> 'w env \<Rightarrow> event option \<Rightarrow> ('w world, prim) js" where
  "apply_fn (External r t b) env event = b env event"
| "apply_fn (SimpleWrapper handler) env event =
     seq (raw_handler handler env None)
     (seq (if_event_preventDefault event)
     (ret (Bool False)))"
| "apply_fn (AdvancedWrapper handler) env event = raw_handler handler env event"

fun typeof :: "'w jsval \<Rightarrow> string" where
  "typeof (Prim Undefined) = ''undefined''"
| "typeof (Prim Null) = ''object''"
| "typeof (Prim (Bool b)) = ''boolean''"
| "typeof (Prim (Num n)) = ''number''"
| "typeof (Prim (Str s)) = ''string''"
| "typeof (Fn f) = ''function''"
| "typeof (Obj ps) = ''object''"

text \<open>
  \<open>v.p\<close> for a property \<open>p\<close> the module reads (\<open>handler\<close>, \<open>help\<close>, \<open>icon\<close>,
  \<open>help_index\<close>): a plain object has it or not, a primitive or a function has none of
  them, and reading it from \<open>undefined\<close> or \<open>null\<close> throws. Where a property list names a
  key twice, the first binding is the property.
\<close>

fun property :: "'w jsval \<Rightarrow> string \<Rightarrow> 'w jsval" where
  "property (Obj ps) p = (case map_of ps p of None \<Rightarrow> Prim Undefined | Some v \<Rightarrow> v)"
| "property v p = Prim Undefined"

fun nullish :: "'w jsval \<Rightarrow> bool" where
  "nullish (Prim Undefined) = True"
| "nullish (Prim Null) = True"
| "nullish v = False"

definition get_member :: "'w jsval \<Rightarrow> string \<Rightarrow> error + 'w jsval" where
  "get_member v p = (if nullish v then Inl TypeError else Inr (property v p))"

fun truthy :: "'w jsval \<Rightarrow> bool" where
  "truthy (Prim Undefined) = False"
| "truthy (Prim Null) = False"
| "truthy (Prim (Bool b)) = b"
| "truthy (Prim (Num n)) = (n \<noteq> 0)"
| "truthy (Prim (Str s)) = (s \<noteq> [])"
| "truthy (Fn f) = True"
| "truthy (Obj ps) = True"

text \<open>\<open>a || b\<close>\<close>

definition js_or :: "'w jsval \<Rightarrow> 'w jsval \<Rightarrow> 'w jsval" where
  "js_or a b = (if truthy a then a else b)"

text \<open>\<open>o.p = v\<close> on the property list of a plain object.\<close>

fun put :: "string \<Rightarrow> 'v \<Rightarrow> (string \<times> 'v) list \<Rightarrow> (string \<times> 'v) list" where
  "put p v [] = [(p, v)]"
| "put p v ((q, u) # ps) = (if q = p then (p, v) # ps else (q, u) # put p v ps)"

subsection \<open>Building the registry\<close>

text \<open>
  The registry maps a qualified name to an action, a plain object. The table is the
  registry's own properties; what it inherits is added where the registry is read.
\<close>

type_synonym 'w table = "string \<rightharpoonup> 'w jsval"

text \<open>
  \<open>registry[key].p = v\<close>. The statement throws when \<open>registry[key]\<close> is \<open>undefined\<close>; the
  module only runs it on an entry it has stored just before.
\<close>

definition assign :: "'w table \<Rightarrow> string \<Rightarrow> string \<Rightarrow> 'w jsval \<Rightarrow> 'w table" where
  "assign registry key p v =
     (case registry key of
        Some (Obj ps) \<Rightarrow> registry(key \<mapsto> Obj (put p v ps))
      | _ \<Rightarrow> registry)"

text \<open>\<open>subkey.replace(/-/g,' ')\<close>\<close>

definition replace_dashes :: "string \<Rightarrow> string" where
  "replace_dashes subkey = map (\<lambda>c. if c = CHR ''-'' then CHR '' '' else c) subkey"

text \<open>The value of a key of a table's entry: \<open>undefined\<close> when the literal has no such key.\<close>

definition source_value :: "string option \<Rightarrow> 'w jsval" where
  "source_value x = (case x of None \<Rightarrow> Prim Undefined | Some s \<Rightarrow> Prim (Str s))"

text \<open>
  \<open>_prepare_handler(registry, subkey, source)\<close>, with \<open>source[subkey]\<close> passed as \<open>entry\<close>:
  \<open>fun\<close> calls it for the keys of \<open>source\<close> only. It returns the registry, which the source
  updates in place, and the handler.
\<close>

definition prepare_handler :: "'w table \<Rightarrow> string \<Rightarrow> source_action \<Rightarrow> 'w table \<times> raw" where
  "prepare_handler registry subkey entry =
     (let registry = registry(''ipython.'' @ subkey \<mapsto> Obj []);
          registry = assign registry (''ipython.'' @ subkey) ''help''
                       (js_or (source_value (src_help entry)) (Prim (Str (replace_dashes subkey))));
          registry = assign registry (''ipython.'' @ subkey) ''help_index''
                       (source_value (src_help_index entry));
          registry = assign registry (''ipython.'' @ subkey) ''icon''
                       (source_value (src_icon entry))
      in (registry, src_handler entry))"

text \<open>One round of a loop of \<open>fun\<close>; \<open>wrap\<close> is the closure the loop creates.\<close>

definition fun_step :: "(raw \<Rightarrow> 'w fn) \<Rightarrow> string \<times> source_action \<Rightarrow> 'w table \<Rightarrow> 'w table" where
  "fun_step wrap kv final_actions =
     (case kv of (k, entry) \<Rightarrow>
        (case prepare_handler final_actions k entry of (final_actions, handler) \<Rightarrow>
           assign final_actions (''ipython.'' @ k) ''handler'' (Fn (wrap handler))))"

definition fun' :: "'w table" where
  "fun' = fold (fun_step AdvancedWrapper) custom_ignore
            (fold (fun_step SimpleWrapper) actions Map.empty)"

subsection \<open>The prototype, the instances and the methods\<close>

text \<open>
  \<open>ActionHandler.prototype._actions\<close> is one object, set once to \<open>fun()\<close>. An instance has
  the one property \<open>env\<close> that its constructor sets, and is sealed: \<open>this._actions\<close> is the
  prototype's, whatever \<open>this\<close> is. Instances are known by their position in \<open>instances\<close>.
\<close>

record 'w heap =
  proto_actions :: "'w table"
  instances :: "'w env list"

definition initial_heap :: "'w heap" where
  "initial_heap = \<lparr>proto_actions = fun', instances = []\<rparr>"

text \<open>\<open>new ActionHandler(env)\<close>: \<open>this.env = env || {}\<close>; the result is the new instance.\<close>

definition ActionHandler :: "'w env option \<Rightarrow> ('w heap, nat) js" where
  "ActionHandler env h =
     (Inr (length (instances h)),
      h\<lparr>instances := instances h @ [case env of None \<Rightarrow> empty_env | Some e \<Rightarrow> e]\<rparr>)"

text \<open>\<open>this.env\<close>; the methods are called on instances the constructor has made.\<close>

definition this_env :: "'w heap \<Rightarrow> nat \<Rightarrow> 'w env" where
  "this_env h this = (if this < length (instances h) then instances h ! this else empty_env)"

text \<open>\<open>this._actions\<close>\<close>

definition this_actions :: "'w heap \<Rightarrow> nat \<Rightarrow> 'w table" where
  "this_actions h this = proto_actions h"


text \<open>
  \<open>normalise(data)\<close>. It reads and writes nothing of \<open>this\<close>; it returns a new object or
  throws.
\<close>

definition normalise :: "'w jsval \<Rightarrow> error + 'w jsval" where
  "normalise data =
     (let data = (if typeof data = ''function'' then Obj [(''handler'', data)] else data) in
      case get_member data ''handler'' of
        Inl e \<Rightarrow> Inl e
      | Inr h \<Rightarrow>
          if typeof h \<noteq> ''function'' then Inl (Thrown ''unknown datatype, cannot register'')
          else Inr (Obj [(''handler'', h),
                         (''help'', js_or (property data ''help'') (Prim (Str []))),
                         (''icon'', js_or (property data ''icon'') (Prim (Str []))),
                         (''help_index'', js_or (property data ''help_index'') (Prim (Str [])))]))"

text \<open>\<open>String(action.handler)\<close>, for the handler of a normalised action, which is a function.\<close>

definition handler_text :: "'w jsval \<Rightarrow> string" where
  "handler_text action = (case property action ''handler'' of Fn f \<Rightarrow> fn_text f | _ \<Rightarrow> [])"

text \<open>
  \<open>register(action, name, prefix)\<close>, \<open>name\<close> and \<open>prefix\<close> being strings or left out; the
  empty string is falsy.
\<close>

definition register :: "nat \<Rightarrow> 'w jsval \<Rightarrow> string option \<Rightarrow> string option \<Rightarrow> ('w heap, string) js" where
  "register this action name prefix h =
     (case normalise action of
        Inl e \<Rightarrow> (Inl e, h)
      | Inr action \<Rightarrow>
          (let name = (case name of
                         None \<Rightarrow> ''autogenerated-'' @ handler_text action
                       | Some n \<Rightarrow> if n = [] then ''autogenerated-'' @ handler_text action else n);
               prefix = (case prefix of None \<Rightarrow> ''auto'' | Some p \<Rightarrow> if p = [] then ''auto'' else p);
               full_name = prefix @ ''.'' @ name
           in (Inr full_name, h\<lparr>proto_actions := (this_actions h this)(full_name \<mapsto> action)\<rparr>)))"

text \<open>
  \<open>this._actions[name]\<close>. The registry is a plain object: where it has no property of
  its own under \<open>name\<close>, the read finds what the object inherits from
  \<open>Object.prototype\<close>, and is \<open>undefined\<close> only for the other names. The members of
  \<open>Object.prototype\<close> are those of the language; they are functions, but for \<open>__proto__\<close>,
  which is \<open>Object.prototype\<close> itself, and none has a property \<open>handler\<close>.
\<close>

definition object_prototype_keys :: "string list" where
  "object_prototype_keys =
     [''constructor'', ''__defineGetter__'', ''__defineSetter__'', ''hasOwnProperty'',
      ''__lookupGetter__'', ''__lookupSetter__'', ''isPrototypeOf'', ''propertyIsEnumerable'',
      ''toString'', ''valueOf'', ''__proto__'', ''toLocaleString'']"

datatype 'w member =
    Stored "'w jsval"     \<comment> \<open>the registry's own property: the action stored under the name\<close>
  | Inherited string      \<comment> \<open>the member of \<open>Object.prototype\<close> of that name\<close>
  | NoMember              \<comment> \<open>\<open>undefined\<close>\<close>

definition member_typeof :: "'w member \<Rightarrow> string" where
  "member_typeof m =
     (case m of
        Stored v \<Rightarrow> typeof v
      | Inherited n \<Rightarrow> if n = ''__proto__'' then ''object'' else ''function''
      | NoMember \<Rightarrow> ''undefined'')"

text \<open>\<open>m.handler\<close> for what such a read has found.\<close>

definition member_handler :: "'w member \<Rightarrow> error + 'w jsval" where
  "member_handler m =
     (case m of
        Stored v \<Rightarrow> get_member v ''handler''
      | Inherited n \<Rightarrow> Inr (Prim Undefined)
      | NoMember \<Rightarrow> Inl TypeError)"

text \<open>\<open>get(name)\<close>\<close>

definition get :: "nat \<Rightarrow> string \<Rightarrow> 'w heap \<Rightarrow> 'w member" where
  "get this name h =
     (case this_actions h this name of
        Some a \<Rightarrow> Stored a
      | None \<Rightarrow> if name \<in> set object_prototype_keys then Inherited name else NoMember)"

definition exists :: "nat \<Rightarrow> string \<Rightarrow> 'w heap \<Rightarrow> bool" where
  "exists this name h = (member_typeof (get this name h) \<noteq> ''undefined'')"


text \<open>
  \<open>call(name, event, env)\<close>: \<open>this._actions[name].handler(env || this.env, event)\<close>. The
  handler runs on the world; the heap is read only.
\<close>

definition call :: "nat \<Rightarrow> string \<Rightarrow> event option \<Rightarrow> 'w env option \<Rightarrow> 'w heap \<Rightarrow> ('w world, prim) js" where
  "call this name event env h =
     (case member_handler (get this name h) of
        Inl e \<Rightarrow> throw e
      | Inr (Fn f) \<Rightarrow> apply_fn f (case env of None \<Rightarrow> this_env h this | Some e \<Rightarrow> e) event
      | Inr _ \<Rightarrow> throw TypeError)"

subsection \<open>What the registry holds\<close>

text \<open>The object that a round of \<open>fun\<close> stores for the entry \<open>(k, entry)\<close> of a table.\<close>

definition builtin_action :: "(raw \<Rightarrow> 'w fn) \<Rightarrow> string \<Rightarrow> source_action \<Rightarrow> 'w jsval" where
  "builtin_action wrap k entry =
     Obj [(''help'', js_or (source_value (src_help entry)) (Prim (Str (replace_dashes k)))),
          (''help_index'', source_value (src_help_index entry)),
          (''icon'', source_value (src_icon entry)),
          (''handler'', Fn (wrap (src_handler entry)))]"






subsection \<open>An environment for examples\<close>

text \<open>A file list of three rows, none of which has the focus; its methods change nothing.\<close>

definition example_notebooklist :: "unit notebooklist" where
  "example_notebooklist =
     \<lparr>nbl_get_length_siblings = (\<lambda>sel. ret (if sel = ''.focus'' then 0 else 3)),
      nbl_open = ret (),
      nbl_get_selected_index = ret 0,
      nbl_select_row = (\<lambda>i. ret ())\<rparr>"

definition example_env :: "unit env" where
  "example_env = \<lparr>notebooklist = Some example_notebooklist, notebook = None, other_keys = Map.empty\<rparr>"

definition example_world :: "unit world" where
  "example_world = \<lparr>prevented = [], host = ()\<rparr>"

text \<open>A function of a caller: it cancels nothing and returns \<open>true\<close>.\<close>

definition example_fn :: "unit fn" where
  "example_fn = External 1 ''function (env) { return true; }'' (\<lambda>env event. ret (Bool True))"


section \<open>Properties\<close>

subsection \<open>Effects\<close>

text \<open>An exception ends a sequence: what follows does not run.\<close>

lemma seq_Inl: "m s = (Inl e, s') \<Longrightarrow> seq m n s = (Inl e, s')"
  by (simp add: seq_def bind_def)

subsection \<open>The built-in registry\<close>

lemma fun_step_eq:
  "fun_step wrap (k, entry) t = t(''ipython.'' @ k \<mapsto> builtin_action wrap k entry)"
  by (simp add: fun_step_def prepare_handler_def assign_def Let_def builtin_action_def)

lemma fold_fun_step_cases:
  "fold (fun_step wrap) xs t name = Some a \<Longrightarrow>
     t name = Some a \<or>
     (\<exists>k entry. (k, entry) \<in> set xs \<and> name = ''ipython.'' @ k \<and> a = builtin_action wrap k entry)"
proof (induction xs arbitrary: t)
  case Nil
  then show ?case by simp
next
  case (Cons kv xs)
  obtain k entry where kv: "kv = (k, entry)" by (cases kv)
  from Cons.prems have "fold (fun_step wrap) xs (fun_step wrap kv t) name = Some a" by simp
  from Cons.IH [OF this] show ?case
  proof
    assume "fun_step wrap kv t name = Some a"
    then show ?thesis
      by (auto simp: kv fun_step_eq split: if_splits)
  next
    assume "\<exists>k entry. (k, entry) \<in> set xs \<and> name = ''ipython.'' @ k \<and> a = builtin_action wrap k entry"
    then show ?thesis by auto
  qed
qed

lemma fun'_cases:
  assumes "(fun' :: 'w table) name = Some a"
  shows "\<exists>k entry. name = ''ipython.'' @ k \<and>
           (((k, entry) \<in> set actions \<and> a = builtin_action SimpleWrapper k entry) \<or>
            ((k, entry) \<in> set custom_ignore \<and> a = builtin_action AdvancedWrapper k entry))"
proof -
  from assms have "fold (fun_step AdvancedWrapper) custom_ignore
      (fold (fun_step SimpleWrapper) actions Map.empty) name = Some a"
    by (simp add: fun'_def)
  from fold_fun_step_cases [OF this] show ?thesis
  proof
    assume "fold (fun_step SimpleWrapper) actions Map.empty name = Some a"
    from fold_fun_step_cases [OF this] show ?thesis by auto
  next
    assume "\<exists>k entry. (k, entry) \<in> set custom_ignore \<and> name = ''ipython.'' @ k \<and>
      a = builtin_action AdvancedWrapper k entry"
    then show ?thesis by auto
  qed
qed

lemma fold_fun_step_other:
  "\<forall>kv \<in> set xs. name \<noteq> ''ipython.'' @ fst kv \<Longrightarrow> fold (fun_step wrap) xs t name = t name"
proof (induction xs arbitrary: t)
  case Nil
  then show ?case by simp
next
  case (Cons kv xs)
  obtain k entry where kv: "kv = (k, entry)" by (cases kv)
  from Cons.prems have "name \<noteq> ''ipython.'' @ k" by (simp add: kv)
  then have "fun_step wrap kv t name = t name"
    unfolding kv fun_step_eq by simp
  moreover from Cons.prems have "fold (fun_step wrap) xs (fun_step wrap kv t) name = fun_step wrap kv t name"
    by (intro Cons.IH) simp
  ultimately show ?case by simp
qed

lemma fold_fun_step_in:
  "distinct (map fst xs) \<Longrightarrow> (k, entry) \<in> set xs \<Longrightarrow> name = ''ipython.'' @ k \<Longrightarrow>
     fold (fun_step wrap) xs t name = Some (builtin_action wrap k entry)"
proof (induction xs arbitrary: t)
  case Nil
  then show ?case by simp
next
  case (Cons kv xs)
  show ?case
  proof (cases "kv = (k, entry)")
    case True
    with Cons.prems have "k \<notin> fst ` set xs" by auto
    then have "\<forall>kv \<in> set xs. name \<noteq> ''ipython.'' @ fst kv"
      using Cons.prems(3) by auto
    then have "fold (fun_step wrap) xs (fun_step wrap kv t) name = fun_step wrap kv t name"
      by (rule fold_fun_step_other)
    also have "\<dots> = Some (builtin_action wrap k entry)"
      unfolding True fun_step_eq Cons.prems(3) by simp
    finally show ?thesis by simp
  next
    case False
    with Cons.prems have "distinct (map fst xs)" "(k, entry) \<in> set xs" by auto
    then have "fold (fun_step wrap) xs (fun_step wrap kv t) name = Some (builtin_action wrap k entry)"
      using Cons.prems(3) by (rule Cons.IH)
    then show ?thesis by simp
  qed
qed

lemma actions_keys: "map fst actions = [''enter-row'', ''select-previous-row'', ''select-next-row'']"
  by (simp add: actions_def)

lemma custom_ignore_keys:
  "map fst custom_ignore =
     [''ignore'', ''move-cursor-up-or-previous-cell'', ''move-cursor-down-or-next-cell'',
      ''scroll-down'', ''scroll-up'', ''scroll-cell-center'', ''scroll-cell-top'', ''save-notebook'']"
  by (simp add: custom_ignore_def)

lemma distinct_actions: "distinct (map fst actions)"
  by (simp add: actions_keys)

lemma distinct_custom_ignore: "distinct (map fst custom_ignore)"
  by (simp add: custom_ignore_keys)

lemma actions_not_custom: "(k, entry) \<in> set actions \<Longrightarrow> k \<notin> fst ` set custom_ignore"
proof -
  assume "(k, entry) \<in> set actions"
  then have "k \<in> set (map fst actions)" by force
  then have k: "k = ''enter-row'' \<or> k = ''select-previous-row'' \<or> k = ''select-next-row''"
    by (simp add: actions_keys)
  have "k \<notin> set (map fst custom_ignore)"
    unfolding custom_ignore_keys using k by (elim disjE) simp_all
  then show ?thesis by simp
qed

lemma fun'_simple:
  assumes "(k, entry) \<in> set actions"
  shows "(fun' :: 'w table) (''ipython.'' @ k) = Some (builtin_action SimpleWrapper k entry)"
proof -
  from actions_not_custom [OF assms]
  have "\<forall>kv \<in> set custom_ignore. ''ipython.'' @ k \<noteq> ''ipython.'' @ fst kv"
    by auto
  then have "(fun' :: 'w table) (''ipython.'' @ k) =
      fold (fun_step SimpleWrapper) actions Map.empty (''ipython.'' @ k)"
    unfolding fun'_def by (rule fold_fun_step_other)
  also have "\<dots> = Some (builtin_action SimpleWrapper k entry)"
    using distinct_actions assms by (rule fold_fun_step_in) (rule refl)
  finally show ?thesis .
qed

lemma fun'_advanced:
  assumes "(k, entry) \<in> set custom_ignore"
  shows "(fun' :: 'w table) (''ipython.'' @ k) = Some (builtin_action AdvancedWrapper k entry)"
  unfolding fun'_def using distinct_custom_ignore assms by (rule fold_fun_step_in) (rule refl)

lemma builtin_action_handler:
  "property (builtin_action wrap k entry) ''handler'' = Fn (wrap (src_handler entry))"
  by (simp add: builtin_action_def)

lemma fun'_no_such_action: "(fun' :: 'w table) ''no.such.action'' = None"
proof (cases "(fun' :: 'w table) ''no.such.action''")
  case None
  then show ?thesis .
next
  case (Some a)
  from fun'_cases [OF this] show ?thesis by simp
qed

subsection \<open>Invoking\<close>

lemma call_entry:
  "this_actions h this name = Some a \<Longrightarrow> property a ''handler'' = Fn f \<Longrightarrow> \<not> nullish a \<Longrightarrow>
     call this name event env h = apply_fn f (case env of None \<Rightarrow> this_env h this | Some e \<Rightarrow> e) event"
  by (simp add: call_def get_def member_handler_def get_member_def)

lemma nullish_builtin_action: "\<not> nullish (builtin_action wrap k entry)"
  by (simp add: builtin_action_def)

text \<open>
  C1: for every name that has no entry in the registry, \<open>call\<close> throws, and returns no
  sentinel: reading \<open>handler\<close> from \<open>undefined\<close>, or calling the \<open>handler\<close> that an inherited
  member does not have, is the runtime's TypeError, and the world is as it was. In
  particular \<open>call("no.such.action")\<close> throws on the registry as built.
\<close>

theorem call_unregistered:
  "(this_actions h this name = None \<longrightarrow> call this name event env h w = (Inl TypeError, w)) \<and>
   call this ''no.such.action'' event env initial_heap w = (Inl TypeError, w)"
  by (simp add: call_def get_def member_handler_def throw_def this_actions_def
      initial_heap_def fun'_no_such_action)

theorem call_unregistered_witness:
  "this_actions (initial_heap :: unit heap) 0 ''no.such.action'' = None \<and>
   call 0 ''no.such.action'' (Some 7) None (initial_heap :: unit heap) example_world
     = (Inl TypeError, example_world)"
  using call_unregistered [of "initial_heap :: unit heap" 0 "''no.such.action''" "Some 7" None example_world]
  by (simp add: this_actions_def initial_heap_def fun'_no_such_action)

lemma call_simple:
  assumes "(k, entry) \<in> set actions"
    and "this_actions h this (''ipython.'' @ k) = fun' (''ipython.'' @ k)"
  shows "call this (''ipython.'' @ k) event env h =
           apply_fn (SimpleWrapper (src_handler entry))
             (case env of None \<Rightarrow> this_env h this | Some x \<Rightarrow> x) event"
proof -
  have "this_actions h this (''ipython.'' @ k) = Some (builtin_action SimpleWrapper k entry)"
    by (rule trans [OF assms(2) fun'_simple [OF assms(1)]])
  then show ?thesis
    by (rule call_entry) (simp_all add: builtin_action_handler nullish_builtin_action)
qed

lemma call_advanced:
  assumes "(k, entry) \<in> set custom_ignore"
    and "this_actions h this (''ipython.'' @ k) = fun' (''ipython.'' @ k)"
  shows "call this (''ipython.'' @ k) event env h =
           apply_fn (AdvancedWrapper (src_handler entry))
             (case env of None \<Rightarrow> this_env h this | Some x \<Rightarrow> x) event"
proof -
  have "this_actions h this (''ipython.'' @ k) = Some (builtin_action AdvancedWrapper k entry)"
    by (rule trans [OF assms(2) fun'_advanced [OF assms(1)]])
  then show ?thesis
    by (rule call_entry) (simp_all add: builtin_action_handler nullish_builtin_action)
qed

lemma enter_row_entry:
  "(''enter-row'',
      \<lparr>src_help = Some ''opens active file or directory'', src_help_index = Some ''aa'',
       src_icon = None, src_handler = EnterRow\<rparr>) \<in> set actions"
  by (simp add: actions_def)

lemma ignore_entry:
  "(''ignore'', \<lparr>src_help = None, src_help_index = None, src_icon = None, src_handler = Ignore\<rparr>)
     \<in> set custom_ignore"
  by (simp add: custom_ignore_def)

lemma this_actions_construct:
  "this_actions (snd (ActionHandler env h)) this = this_actions h this'"
  by (simp add: this_actions_def ActionHandler_def)

lemma this_env_construct_initial:
  "this_env (snd (ActionHandler env initial_heap)) 0 = (case env of None \<Rightarrow> empty_env | Some e \<Rightarrow> e)"
  by (simp add: this_env_def ActionHandler_def initial_heap_def)

lemma enter_row_empty_env: "enter_row empty_env w = (Inl TypeError, w)"
  by (simp add: enter_row_def env_notebooklist_def the_obj_def empty_env_def bind_def throw_def)

lemma enter_row_example: "enter_row example_env w = (Inr Undefined, w)"
  by (simp add: enter_row_def env_notebooklist_def the_obj_def example_env_def
      example_notebooklist_def bind_def ret_def seq_def if_then_def)

text \<open>
  C2, as the code has it: invoking a built-in simple action with an event runs the
  table's handler on the environment alone. When that handler returns, \<open>preventDefault\<close> is
  called on the event, once, and the invocation returns \<open>false\<close>; when it throws, the
  exception is the invocation's, the wrapper calls no \<open>preventDefault\<close> and nothing is
  returned.
\<close>

theorem simple_action_call:
  assumes "(k, entry) \<in> set actions"
    and "this_actions h this (''ipython.'' @ k) = fun' (''ipython.'' @ k)"
  shows "call this (''ipython.'' @ k) (Some e) env h w =
           (case raw_handler (src_handler entry)
                   (case env of None \<Rightarrow> this_env h this | Some x \<Rightarrow> x) None w of
              (Inl err, w') \<Rightarrow> (Inl err, w')
            | (Inr v, w') \<Rightarrow> (Inr (Bool False), w'\<lparr>prevented := prevented w' @ [e]\<rparr>))"
  unfolding call_simple [OF assms]
  by (simp add: seq_def bind_def ret_def if_event_preventDefault_def preventDefault_def
      split: prod.split sum.split)

theorem simple_action_call_witness:
  "(''enter-row'',
      \<lparr>src_help = Some ''opens active file or directory'', src_help_index = Some ''aa'',
       src_icon = None, src_handler = EnterRow\<rparr>) \<in> set actions \<and>
   this_actions (snd (ActionHandler (Some example_env) initial_heap)) 0 (''ipython.'' @ ''enter-row'')
     = fun' (''ipython.'' @ ''enter-row'') \<and>
   call 0 (''ipython.'' @ ''enter-row'') (Some 7) None
       (snd (ActionHandler (Some example_env) initial_heap)) example_world
     = (Inr (Bool False), \<lparr>prevented = [7], host = ()\<rparr>)"
proof -
  let ?h = "snd (ActionHandler (Some example_env) initial_heap)"
  have reg: "this_actions ?h 0 (''ipython.'' @ ''enter-row'') = fun' (''ipython.'' @ ''enter-row'')"
    unfolding this_actions_def ActionHandler_def initial_heap_def by simp
  have env: "this_env ?h 0 = example_env"
    by (simp add: this_env_construct_initial)
  from simple_action_call [OF enter_row_entry reg, of 7 None example_world]
  have "call 0 (''ipython.'' @ ''enter-row'') (Some 7) None ?h example_world
          = (Inr (Bool False), \<lparr>prevented = [7], host = ()\<rparr>)"
    by (simp add: env enter_row_example example_world_def)
  with enter_row_entry reg show ?thesis by blast
qed

text \<open>
  C2 as stated fails on an instance constructed without an environment: \<open>env\<close> is \<open>{}\<close>,
  the handler of \<open>enter-row\<close> throws on \<open>env.notebooklist\<close>, and the invocation neither
  returns \<open>false\<close> nor calls \<open>preventDefault\<close>.
\<close>

theorem simple_action_call_counterexample:
  "call 0 ''ipython.enter-row'' (Some 7) None
       (snd (ActionHandler None initial_heap)) \<lparr>prevented = [], host = ()\<rparr>
     = (Inl TypeError, \<lparr>prevented = [], host = ()\<rparr>)"
proof -
  let ?h = "snd (ActionHandler None (initial_heap :: unit heap))"
  have reg: "this_actions ?h 0 (''ipython.'' @ ''enter-row'') = fun' (''ipython.'' @ ''enter-row'')"
    unfolding this_actions_def ActionHandler_def initial_heap_def by simp
  have env: "this_env ?h 0 = empty_env"
    by (simp add: this_env_construct_initial)
  have "call 0 (''ipython.'' @ ''enter-row'') (Some 7) None ?h \<lparr>prevented = [], host = ()\<rparr>
          = (Inl TypeError, \<lparr>prevented = [], host = ()\<rparr>)"
    unfolding call_simple [OF enter_row_entry reg] env
    by (simp add: seq_Inl [OF enter_row_empty_env])
  then show ?thesis by simp
qed

text \<open>
  C3: invoking a built-in advanced action is calling the table's handler with the
  environment and the event: the same result, the same exception, the same world after
  it, so no \<open>preventDefault\<close> but the handler's own. The action \<open>ignore\<close> returns \<open>true\<close> and
  leaves the world as it was.
\<close>

theorem advanced_action_call:
  assumes "(k, entry) \<in> set custom_ignore"
    and "this_actions h this (''ipython.'' @ k) = fun' (''ipython.'' @ k)"
  shows "call this (''ipython.'' @ k) event env h w =
           raw_handler (src_handler entry)
             (case env of None \<Rightarrow> this_env h this | Some x \<Rightarrow> x) event w \<and>
         (k = ''ignore'' \<longrightarrow> call this (''ipython.'' @ k) event env h w = (Inr (Bool True), w))"
proof -
  have call: "call this (''ipython.'' @ k) event env h w =
      raw_handler (src_handler entry) (case env of None \<Rightarrow> this_env h this | Some x \<Rightarrow> x) event w"
    unfolding call_advanced [OF assms] by simp
  have "src_handler entry = Ignore" if "k = ''ignore''"
    using assms(1) that by (simp add: custom_ignore_def)
  then show ?thesis
    unfolding call by (simp add: ignore_def ret_def)
qed

theorem advanced_action_call_witness:
  "(''ignore'', \<lparr>src_help = None, src_help_index = None, src_icon = None, src_handler = Ignore\<rparr>)
     \<in> set custom_ignore \<and>
   this_actions (initial_heap :: unit heap) 0 (''ipython.'' @ ''ignore'') = fun' (''ipython.'' @ ''ignore'') \<and>
   call 0 (''ipython.'' @ ''ignore'') (Some 7) None (initial_heap :: unit heap) example_world
     = (Inr (Bool True), example_world)"
proof -
  have reg: "this_actions (initial_heap :: unit heap) 0 (''ipython.'' @ ''ignore'')
      = fun' (''ipython.'' @ ''ignore'')"
    unfolding this_actions_def initial_heap_def by simp
  from advanced_action_call [OF ignore_entry reg, of "Some 7" None example_world]
  have "call 0 (''ipython.'' @ ''ignore'') (Some 7) None (initial_heap :: unit heap) example_world
      = (Inr (Bool True), example_world)"
    by (simp add: ignore_def ret_def)
  with ignore_entry reg show ?thesis by blast
qed

subsection \<open>The help of the built-in actions\<close>







subsection \<open>Normalising and registering\<close>

lemma normalise_Fn:
  "normalise (Fn f) =
     Inr (Obj [(''handler'', Fn f), (''help'', Prim (Str [])), (''icon'', Prim (Str [])),
               (''help_index'', Prim (Str []))])"
  by (simp add: normalise_def get_member_def js_or_def)

text \<open>
  C7: for a function \<open>f\<close>, \<open>normalise(f)\<close> returns the object
  \<open>{handler: f, help: "", icon: "", help_index: ""}\<close>, whose handler is \<open>f\<close> itself.
\<close>

theorem normalise_function:
  "normalise (Fn f) =
     Inr (Obj [(''handler'', Fn f), (''help'', Prim (Str [])), (''icon'', Prim (Str [])),
               (''help_index'', Prim (Str []))])"
  by (simp add: normalise_def get_member_def js_or_def)

text \<open>What \<open>normalise\<close> returns when it returns: \<open>d\<close> is the data, or the data wrapped.\<close>

lemma normalise_Inr:
  assumes "normalise data = Inr a"
  shows "\<exists>f d. a = Obj [(''handler'', Fn f),
                        (''help'', js_or (property d ''help'') (Prim (Str []))),
                        (''icon'', js_or (property d ''icon'') (Prim (Str []))),
                        (''help_index'', js_or (property d ''help_index'') (Prim (Str [])))] \<and>
               (d = data \<or> (\<exists>g. data = Fn g \<and> d = Obj [(''handler'', data)]))"
proof -
  define d where "d = (if typeof data = ''function'' then Obj [(''handler'', data)] else data)"
  from assms have fn: "typeof (property d ''handler'') = ''function''"
    and a: "a = Obj [(''handler'', property d ''handler''),
                (''help'', js_or (property d ''help'') (Prim (Str []))),
                (''icon'', js_or (property d ''icon'') (Prim (Str []))),
                (''help_index'', js_or (property d ''help_index'') (Prim (Str [])))]"
    by (auto simp: normalise_def d_def [symmetric] get_member_def Let_def split: if_splits)
  from fn obtain f where f: "property d ''handler'' = Fn f"
    by (cases "property d ''handler''" rule: typeof.cases) simp_all
  have "d = data \<or> (\<exists>g. data = Fn g \<and> d = Obj [(''handler'', data)])"
    unfolding d_def by (cases data rule: typeof.cases) simp_all
  with a f show ?thesis by auto
qed

lemma handler_text_normalised:
  "handler_text (Obj ((''handler'', Fn f) # ps)) = fn_text f"
  by (simp add: handler_text_def)

lemma register_function:
  "register this (Fn f) None prefix h =
     (Inr ((case prefix of None \<Rightarrow> ''auto'' | Some p \<Rightarrow> if p = [] then ''auto'' else p)
           @ ''.'' @ ''autogenerated-'' @ fn_text f),
      h\<lparr>proto_actions := (proto_actions h)
          ((case prefix of None \<Rightarrow> ''auto'' | Some p \<Rightarrow> if p = [] then ''auto'' else p)
             @ ''.'' @ ''autogenerated-'' @ fn_text f
           \<mapsto> Obj [(''handler'', Fn f), (''help'', Prim (Str [])), (''icon'', Prim (Str [])),
                   (''help_index'', Prim (Str []))])\<rparr>)"
  unfolding register_def normalise_Fn
  by (simp add: handler_text_normalised this_actions_def Let_def)

text \<open>
  C6: \<open>register(f)\<close> with no name returns \<open>prefix + "." + "autogenerated-" + String(f)\<close>,
  the prefix being \<open>auto\<close> when none is given. Two functions of different text get
  different names, and the same function gets the same name again, whatever the instance
  and whatever has been registered in between.
\<close>

theorem register_autoname:
  "fst (register this (Fn f) None prefix h) =
     Inr ((case prefix of None \<Rightarrow> ''auto'' | Some p \<Rightarrow> if p = [] then ''auto'' else p)
          @ ''.'' @ ''autogenerated-'' @ fn_text f) \<and>
   fst (register this (Fn f) None None h) = Inr (''auto.autogenerated-'' @ fn_text f) \<and>
   (fn_text f \<noteq> fn_text g \<longrightarrow>
      fst (register this (Fn f) None None h) \<noteq> fst (register this' (Fn g) None None h')) \<and>
   fst (register this' (Fn f) None None (snd (register this (Fn f) None None h)))
     = fst (register this (Fn f) None None h)"
  by (simp add: register_function)

theorem register_autoname_witness:
  "fn_text example_fn \<noteq> fn_text (AdvancedWrapper Ignore :: unit fn) \<and>
   fst (register 0 (Fn example_fn) None None initial_heap)
     \<noteq> fst (register 0 (Fn (AdvancedWrapper Ignore)) None None
              (snd (register 0 (Fn example_fn) None None initial_heap)))"
proof -
  have "fn_text example_fn \<noteq> fn_text (AdvancedWrapper Ignore :: unit fn)"
    by (simp add: example_fn_def advanced_wrapper_text_def)
  with register_autoname [of 0 example_fn None initial_heap "AdvancedWrapper Ignore" 0
      "snd (register 0 (Fn example_fn) None None initial_heap)"]
  show ?thesis by blast
qed

text \<open>
  Data that is not a function and has no callable \<open>handler\<close> makes \<open>normalise\<close> throw: the
  string \<open>unknown datatype, cannot register\<close> when the data is neither \<open>undefined\<close> nor
  \<open>null\<close>, and the runtime's TypeError of reading \<open>handler\<close> from the data when it is one of
  the two.
\<close>

lemma normalise_no_handler:
  assumes "typeof data \<noteq> ''function''" and "typeof (property data ''handler'') \<noteq> ''function''"
  shows "normalise data =
           Inl (if nullish data then TypeError else Thrown ''unknown datatype, cannot register'')"
  using assms by (simp add: normalise_def get_member_def)

text \<open>
  C8: data with no callable \<open>handler\<close> is to make \<open>normalise\<close> fail with the module's own
  error, and so it does for a number, for \<open>{}\<close> and for an object whose \<open>handler\<close> is no
  function. For \<open>undefined\<close> and for \<open>null\<close> it does not: the test that guards the \<open>throw\<close>
  reads \<open>data.handler\<close>, and that read throws the runtime's TypeError first.
\<close>

theorem normalise_undefined_null:
  "normalise (Prim Undefined :: unit jsval) = Inl TypeError \<and>
   normalise (Prim Null :: unit jsval) = Inl TypeError \<and>
   normalise (Prim (Num 3) :: unit jsval) = Inl (Thrown ''unknown datatype, cannot register'') \<and>
   normalise (Obj [] :: unit jsval) = Inl (Thrown ''unknown datatype, cannot register'') \<and>
   normalise (Obj [(''handler'', Prim (Num 3))] :: unit jsval)
     = Inl (Thrown ''unknown datatype, cannot register'')"
  by (simp add: normalise_def get_member_def)

text \<open>
  C10: when \<open>register\<close> is given data that is not a function and has no callable
  \<open>handler\<close>, it throws what \<open>normalise\<close> throws, and the heap, that is the registry and
  the environment of every instance, is as it was before the call.
\<close>

theorem register_atomic:
  assumes "typeof data \<noteq> ''function''" and "typeof (property data ''handler'') \<noteq> ''function''"
  shows "register this data name prefix h =
           (Inl (if nullish data then TypeError else Thrown ''unknown datatype, cannot register''), h)"
  using assms by (simp add: register_def normalise_def get_member_def)

theorem register_atomic_witness:
  "typeof (Obj [] :: unit jsval) \<noteq> ''function'' \<and>
   typeof (property (Obj [] :: unit jsval) ''handler'') \<noteq> ''function'' \<and>
   register 0 (Obj []) (Some ''mine'') None (snd (ActionHandler (Some example_env) initial_heap))
     = (Inl (Thrown ''unknown datatype, cannot register''),
        snd (ActionHandler (Some example_env) initial_heap))"
  using register_atomic [of "Obj [] :: unit jsval" 0 "Some ''mine''" None
      "snd (ActionHandler (Some example_env) initial_heap)"]
  by simp

lemma register_Inr:
  assumes "register this action name prefix h = (Inr full_name, h')"
  shows "\<exists>a. normalise action = Inr a \<and> h' = h\<lparr>proto_actions := (proto_actions h)(full_name \<mapsto> a)\<rparr>"
  using assms
  by (cases "normalise action") (auto simp: register_def Let_def this_actions_def)

text \<open>
  C9: the registry is the prototype's. After \<open>register\<close> on one instance has returned a
  name, \<open>exists\<close> and \<open>get\<close> on any instance find the normalised action under that name,
  and so they do on an instance constructed afterwards.
\<close>

theorem register_shared:
  assumes "register this action name prefix h = (Inr full_name, h')"
  shows "exists this' full_name h' \<and>
         (\<exists>a. normalise action = Inr a \<and> get this' full_name h' = Stored a) \<and>
         (ActionHandler env h' = (Inr i, h'') \<longrightarrow>
            exists i full_name h'' \<and> get i full_name h'' = get this' full_name h')"
proof -
  from register_Inr [OF assms] obtain a
    where a: "normalise action = Inr a"
      and h': "h' = h\<lparr>proto_actions := (proto_actions h)(full_name \<mapsto> a)\<rparr>"
    by blast
  from normalise_Inr [OF a] have obj: "typeof a = ''object''" by auto
  have get: "get this' full_name h' = Stored a" for this'
    by (simp add: get_def this_actions_def h')
  have "get i full_name h'' = Stored a" if "ActionHandler env h' = (Inr i, h'')"
    using that by (auto simp: ActionHandler_def get_def this_actions_def h')
  with a obj get show ?thesis
    by (simp add: exists_def member_typeof_def)
qed

theorem register_shared_witness:
  "register 0 (Fn example_fn) (Some ''mine'') (Some ''test'')
       (snd (ActionHandler None (snd (ActionHandler None initial_heap))))
     = (Inr ''test.mine'',
        snd (register 0 (Fn example_fn) (Some ''mine'') (Some ''test'')
               (snd (ActionHandler None (snd (ActionHandler None initial_heap)))))) \<and>
   exists 1 ''test.mine''
     (snd (register 0 (Fn example_fn) (Some ''mine'') (Some ''test'')
            (snd (ActionHandler None (snd (ActionHandler None initial_heap))))))"
proof -
  let ?h = "snd (ActionHandler None (snd (ActionHandler None (initial_heap :: unit heap))))"
  let ?r = "register 0 (Fn example_fn) (Some ''mine'') (Some ''test'') ?h"
  have "fst ?r = Inr ''test.mine''"
    unfolding register_def normalise_Fn by (simp add: Let_def)
  then have r: "?r = (Inr ''test.mine'', snd ?r)"
    by (metis prod.collapse)
  from register_shared [OF r, of 1] r show ?thesis by blast
qed

subsection \<open>The invariant of the registry\<close>

















end
